theory Spec2Isabelle
  imports Main
begin

section \<open>Data model\<close>

text \<open>
  The program is one Streamlit script, \<^verbatim>\<open>app.py\<close>. The hosting runtime executes the
  whole script from top to bottom on every user interaction (one \<^emph>\<open>render\<close>); what
  survives between renders is \<^verbatim>\<open>st.session_state\<close> and the process-wide cache of
  \<^verbatim>\<open>@st.cache_resource\<close>. A render is modelled as a function from the inputs of
  that run and the surviving state to the new state, an outcome and the ordered list of
  the effects the run performed.

  The three langchain message classes the script constructs; each carries its
  \<^verbatim>\<open>content\<close>.
\<close>

datatype message =
    HumanMessage (content: string)
  | AIMessage (content: string)
  | SystemMessage (content: string)

text \<open>
  \<^verbatim>\<open>st.session_state\<close> is a dictionary; the script uses two keys. A key that is not in
  the dictionary is \<open>None\<close> here (the script never stores Python's \<^verbatim>\<open>None\<close> under
  either key).
\<close>

record session_state =
  messages :: "message list option"
  prompt_input :: "string option"

text \<open>A retrieved document; the script reads only \<^verbatim>\<open>page_content\<close>.\<close>

datatype document = Document (page_content: string)

text \<open>
  The two objects \<^verbatim>\<open>get_engine\<close> builds are handles on external services. The
  retriever handle keeps the directory of the vector store and the \<^verbatim>\<open>k\<close> of its
  \<^verbatim>\<open>search_kwargs\<close>; the chat model handle keeps the model name. The embedding
  model and the other arguments of the chat model (temperature, the conversion of system
  messages inside the client) configure the services and are not modelled.
\<close>

datatype retriever = Retriever (persist_directory: string) (search_k: nat)

datatype llm = ChatGoogleGenerativeAI (model: string)

text \<open>
  The inputs of one render: the secrets store, the file system test, the widgets' return
  values (\<^verbatim>\<open>st.button(label)\<close>, \<^verbatim>\<open>st.chat_input(...)\<close>) and the answers of the
  two external services during this render. A service call that raises is \<open>None\<close>.
\<close>

record world =
  secrets :: "string \<rightharpoonup> string"
  path_exists :: "string \<Rightarrow> bool"
  button :: "string \<Rightarrow> bool"
  chat_input :: "string option"
  retriever_invoke :: "retriever \<Rightarrow> string \<Rightarrow> document list option"
  llm_invoke :: "llm \<Rightarrow> message list \<Rightarrow> string option"

text \<open>
  What survives a render: the session's dictionary and the memo of
  \<^verbatim>\<open>@st.cache_resource\<close> for \<^verbatim>\<open>get_engine\<close> (\<open>None\<close>: not called yet in this
  process; \<open>Some r\<close>: the value the first call returned).
\<close>

record process =
  session :: session_state
  engine_cache :: "(retriever \<times> llm) option option"

datatype role = User | Assistant

text \<open>
  The effects of a render, in the order the script performs them. The texts of the two
  error boxes and the markup of the presentation are left out; the calls of the services
  carry their arguments.
\<close>

datatype event =
    Set_page_config  \<comment> \<open>line 11\<close>
  | Theme_markdown  \<comment> \<open>line 19, the style sheet\<close>
  | Error_missing_api_key  \<comment> \<open>line 136\<close>
  | Set_environ string string  \<comment> \<open>line 134\<close>
  | Sidebar  \<comment> \<open>lines 159 to 197, the widgets of the sidebar\<close>
  | Header  \<comment> \<open>line 202\<close>
  | Error_missing_database  \<comment> \<open>line 210\<close>
  | Stop  \<comment> \<open>\<^verbatim>\<open>st.stop()\<close>, lines 137 and 211\<close>
  | Chat_message role string  \<comment> \<open>lines 230, 233 and 243\<close>
  | Chat_input_widget  \<comment> \<open>line 237\<close>
  | Retriever_invoke retriever string  \<comment> \<open>line 252\<close>
  | Llm_invoke llm "message list"  \<comment> \<open>line 267\<close>
  | Response_markdown string  \<comment> \<open>line 269\<close>

text \<open>
  How a render ends: the script ran to its last line, \<^verbatim>\<open>st.stop()\<close> halted it, or an
  exception left it. In all three cases the changes already made to the session state stay.
\<close>

datatype outcome = Finished | Stopped | Raised

record result =
  outcome :: outcome
  state :: process
  events :: "event list"

section \<open>The script\<close>

text \<open>Python's truth value of a variable that holds \<^verbatim>\<open>None\<close> or a \<^verbatim>\<open>str\<close>.\<close>

definition truthy :: "string option \<Rightarrow> bool" where
  "truthy v = (case v of None \<Rightarrow> False | Some s \<Rightarrow> s \<noteq> [])"

text \<open>\<^verbatim>\<open>sep.join(xs)\<close>\<close>

fun join :: "string \<Rightarrow> string list \<Rightarrow> string" where
  "join sep [] = []"
| "join sep [x] = x"
| "join sep (x # y # ys) = x @ sep @ join sep (y # ys)"

definition DB_PATH :: string where
  "DB_PATH = ''./mahabharat_db''"

text \<open>
  The body of \<^verbatim>\<open>get_engine\<close> (lines 143 to 154). Constructing the clients is taken
  not to raise.
\<close>

definition get_engine_body :: "world \<Rightarrow> (retriever \<times> llm) option" where
  "get_engine_body w =
     (if \<not> path_exists w DB_PATH then None
      else Some (Retriever DB_PATH 4, ChatGoogleGenerativeAI ''gemini-1.5-pro''))"

text \<open>
  \<^verbatim>\<open>get_engine\<close> under \<^verbatim>\<open>@st.cache_resource\<close>: the body runs at the first call of the
  process, later calls return the memo.
\<close>

definition get_engine ::
  "world \<Rightarrow> (retriever \<times> llm) option option \<Rightarrow>
   (retriever \<times> llm) option \<times> (retriever \<times> llm) option option" where
  "get_engine w cache =
     (case cache of
        Some r \<Rightarrow> (r, cache)
      | None \<Rightarrow> (get_engine_body w, Some (get_engine_body w)))"

text \<open>The sidebar's buttons, in source order: label and the query the button stores.\<close>

definition shortcuts :: "(string \<times> string) list" where
  "shortcuts =
    [(''Yudhishthira (Dharma)'',
      ''Tell me about Yudhishthira's adherence to Truth and the game of dice.''),
     (''Bhima (Strength)'',
      ''Describe Bhima's immense strength and his vows.''),
     (''Arjuna (Warrior)'',
      ''Describe Arjuna's skills, the Gandiva bow, and his bond with Krishna.''),
     (''Nakula & Sahadeva'',
      ''What were the special skills and roles of Nakula and Sahadeva?''),
     (''Draupadi (Panchali)'',
      ''Tell me about Draupadi's birth from fire and her resilience.''),
     (''Duryodhana (King)'',
      ''Explain Duryodhana's motivations, his jealousy, and his friendship with Karna.''),
     (''Karna (Tragic Hero)'',
      ''Tell me about Karna's tragic life, his charity (Daan), and his armor (Kavach).''),
     (''Shakuni (Planner)'',
      ''What was Shakuni's role in the game of dice and influencing Duryodhana?''),
     (''Dushasana'',
      ''What was Dushasana's role in the court and his fate in the war?''),
     (''Krishna (Divine)'',
      ''Describe the role of Krishna as the charioteer and his divinity.''),
     (''Bhishma (Grandsire)'',
      ''What was Bhishma's vow of celibacy and his role as the commander?''),
     (''Guru Drona'',
      ''Tell me about Dronacharya as the teacher of both clans and his death.'')]"

text \<open>
  One \<^verbatim>\<open>if st.button(label): st.session_state.prompt_input = query\<close>, and the
  sidebar block (lines 159 to 197), which runs them one after the other.
\<close>

definition shortcut_button ::
  "(string \<Rightarrow> bool) \<Rightarrow> session_state \<Rightarrow> string \<times> string \<Rightarrow> session_state" where
  "shortcut_button clicked s b =
     (if clicked (fst b) then s\<lparr>prompt_input := Some (snd b)\<rparr> else s)"

definition sidebar_navigation :: "(string \<Rightarrow> bool) \<Rightarrow> session_state \<Rightarrow> session_state" where
  "sidebar_navigation clicked s = foldl (shortcut_button clicked) s shortcuts"

definition greeting :: string where
  "greeting = ''Pranam, seeker of truth. I am the chronicler of the Great War. Ask, and I shall recite from the ancient texts.''"

text \<open>Lines 214 to 218.\<close>

definition initialize_state :: "session_state \<Rightarrow> session_state" where
  "initialize_state s =
     (case messages s of
        None \<Rightarrow> s\<lparr>messages := Some [AIMessage greeting]\<rparr>
      | Some ms \<Rightarrow> s)"

text \<open>Lines 221 to 225: the value of \<^verbatim>\<open>user_input\<close> and the session state afterwards.\<close>

definition handle_sidebar_clicks :: "session_state \<Rightarrow> string option \<times> session_state" where
  "handle_sidebar_clicks s =
     (if truthy (prompt_input s) then (prompt_input s, s\<lparr>prompt_input := None\<rparr>)
      else (None, s))"

text \<open>Lines 228 to 234.\<close>

fun display_history :: "message list \<Rightarrow> event list" where
  "display_history [] = []"
| "display_history (HumanMessage c # ms) = Chat_message User c # display_history ms"
| "display_history (AIMessage c # ms) = Chat_message Assistant c # display_history ms"
| "display_history (SystemMessage c # ms) = display_history ms"

text \<open>Line 238.\<close>

definition input_logic :: "string option \<Rightarrow> string option \<Rightarrow> string option" where
  "input_logic user_input chat_input_val =
     (if truthy user_input then user_input else chat_input_val)"

text \<open>
  Lines 256 to 264. Adjacent string literals are one literal in Python, so the expression
  is \<^verbatim>\<open>lit1 + context_text + lit2\<close>.
\<close>

definition system_prompt :: "string \<Rightarrow> string" where
  "system_prompt context_text =
     ''You are Sanjaya, the wise narrator of the Mahabharata. CONTEXT:\<newline>''
     @ context_text
     @ ''\<newline>\<newline>RULES:1. LANGUAGE: Match the user's language (English, Hindi, or Hinglish).2. SCRIPT: If user types in Latin script (e.g. 'Karna kaun tha'), use Latin script (Hinglish). Do NOT use Devanagari unless user does.3. TONE: Respectful, epic, like a Rishi.4. CONTENT: Answer strictly based on context.''"

text \<open>
  Lines 241 to 270, entered when \<^verbatim>\<open>final_query\<close> is a non-empty string: the list
  \<^verbatim>\<open>st.session_state.messages\<close> on entry is \<open>ms\<close>, the result holds the list at the end.
  An exception of a service leaves the block with the list as it is at that moment.
\<close>

definition handle_query ::
  "world \<Rightarrow> retriever \<Rightarrow> llm \<Rightarrow> string option \<Rightarrow> string \<Rightarrow> message list \<Rightarrow>
   outcome \<times> message list \<times> event list" where
  "handle_query w retr l user_input final_query ms =
     (let shown = (if \<not> truthy user_input then [Chat_message User final_query] else []);
          ms1 = ms @ [HumanMessage final_query]
      in case retriever_invoke w retr final_query of
           None \<Rightarrow> (Raised, ms1, shown @ [Retriever_invoke retr final_query])
         | Some docs \<Rightarrow>
             let context_text = join ''\<newline>\<newline>'' (map page_content docs);
                 msgs = [SystemMessage (system_prompt context_text)] @ ms1
             in (case llm_invoke w l msgs of
                   None \<Rightarrow>
                     (Raised, ms1,
                      shown @ [Retriever_invoke retr final_query, Llm_invoke l msgs])
                 | Some response \<Rightarrow>
                     (Finished, ms1 @ [AIMessage response],
                      shown @ [Retriever_invoke retr final_query, Llm_invoke l msgs,
                               Response_markdown response])))"

text \<open>
  Lines 213 to 270, reached when the retriever exists. Reading
  \<^verbatim>\<open>st.session_state.messages\<close> when the key is absent raises; the branch is kept although
  \<open>initialize_state\<close> has just made the key present. The test \<^verbatim>\<open>if final_query:\<close>
  fails for \<^verbatim>\<open>None\<close> and for the empty string.
\<close>

definition main_interface ::
  "world \<Rightarrow> retriever \<Rightarrow> llm \<Rightarrow> session_state \<Rightarrow> outcome \<times> session_state \<times> event list" where
  "main_interface w retr l s =
     (let s1 = initialize_state s;
          (user_input, s2) = handle_sidebar_clicks s1
      in case messages s2 of
           None \<Rightarrow> (Raised, s2, [])
         | Some ms \<Rightarrow>
             let shown = display_history ms @ [Chat_input_widget];
                 final_query = input_logic user_input (chat_input w)
             in (case final_query of
                   None \<Rightarrow> (Finished, s2, shown)
                 | Some q \<Rightarrow>
                     if q = [] then (Finished, s2, shown)
                     else (case handle_query w retr l user_input q ms of
                             (out, ms', evs) \<Rightarrow>
                               (out, s2\<lparr>messages := Some ms'\<rparr>, shown @ evs))))"

text \<open>The whole script: one render.\<close>

definition app :: "world \<Rightarrow> process \<Rightarrow> result" where
  "app w p =
     (case secrets w ''GOOGLE_API_KEY'' of
        None \<Rightarrow>
          \<lparr>outcome = Stopped, state = p,
           events = [Set_page_config, Theme_markdown, Error_missing_api_key, Stop]\<rparr>
      | Some key \<Rightarrow>
          let (engine, cache) = get_engine w (engine_cache p);
              s1 = sidebar_navigation (button w) (session p);
              before = [Set_page_config, Theme_markdown, Set_environ ''GOOGLE_API_KEY'' key,
                        Sidebar, Header]
          in (case engine of
                None \<Rightarrow>
                  \<lparr>outcome = Stopped, state = \<lparr>session = s1, engine_cache = cache\<rparr>,
                   events = before @ [Error_missing_database, Stop]\<rparr>
              | Some (retr, l) \<Rightarrow>
                  (case main_interface w retr l s1 of
                     (out, s2, evs) \<Rightarrow>
                       \<lparr>outcome = out, state = \<lparr>session = s2, engine_cache = cache\<rparr>,
                        events = before @ evs\<rparr>)))"

text \<open>A sequence of renders of one session in one process, with the effects of all of them.\<close>

fun run :: "world list \<Rightarrow> process \<Rightarrow> process \<times> event list" where
  "run [] p = (p, [])"
| "run (w # ws) p =
     (case run ws (state (app w p)) of (p', evs) \<Rightarrow> (p', events (app w p) @ evs))"

text \<open>The value of \<^verbatim>\<open>final_query\<close> (line 238) in a render that starts from session \<open>s\<close>.\<close>

definition final_query :: "world \<Rightarrow> session_state \<Rightarrow> string option" where
  "final_query w s =
     input_logic
       (fst (handle_sidebar_clicks (initialize_state (sidebar_navigation (button w) s))))
       (chat_input w)"

text \<open>The calls of the external services among the effects of a render.\<close>

fun is_service_call :: "event \<Rightarrow> bool" where
  "is_service_call (Retriever_invoke r q) = True"
| "is_service_call (Llm_invoke l ms) = True"
| "is_service_call e = False"

fun is_system :: "message \<Rightarrow> bool" where
  "is_system (SystemMessage c) = True"
| "is_system m = False"

fun is_retrieval :: "event \<Rightarrow> bool" where
  "is_retrieval (Retriever_invoke r q) = True"
| "is_retrieval e = False"

text \<open>No system message is stored in the session's history.\<close>

definition no_system :: "session_state \<Rightarrow> bool" where
  "no_system s = (case messages s of None \<Rightarrow> True | Some ms \<Rightarrow> filter is_system ms = [])"

text \<open>Some button of the sidebar returns \<^verbatim>\<open>True\<close> in this render.\<close>

definition shortcut_activated :: "world \<Rightarrow> bool" where
  "shortcut_activated w = list_ex (\<lambda>b. button w (fst b)) shortcuts"

section \<open>Sample renders\<close>

text \<open>
  Concrete inputs on which the theorems below are instantiated: a render with nothing
  clicked and nothing typed, in a deployment that has its key and its index and whose
  services answer; and variations of it.
\<close>

definition idle_world :: world where
  "idle_world =
     \<lparr>secrets = [''GOOGLE_API_KEY'' \<mapsto> ''secret''],
      path_exists = (\<lambda>path. True),
      button = (\<lambda>label. False),
      chat_input = None,
      retriever_invoke =
        (\<lambda>r q. Some [Document ''Karna was the son of Surya.'',
                      Document ''Karna gave away his armor.'']),
      llm_invoke = (\<lambda>l ms. Some ''Karna was a great warrior.'')\<rparr>"

definition typing_world :: world where
  "typing_world = idle_world\<lparr>chat_input := Some ''Karna kaun tha''\<rparr>"

definition arjuna_world :: world where
  "arjuna_world = idle_world\<lparr>button := (\<lambda>label. label = ''Arjuna (Warrior)'')\<rparr>"

definition arjuna_typing_world :: world where
  "arjuna_typing_world = arjuna_world\<lparr>chat_input := Some ''Karna kaun tha''\<rparr>"

definition no_key_world :: world where
  "no_key_world = idle_world\<lparr>secrets := Map.empty\<rparr>"

definition no_db_world :: world where
  "no_db_world = idle_world\<lparr>path_exists := (\<lambda>path. False)\<rparr>"

definition arjuna_no_db_world :: world where
  "arjuna_no_db_world = arjuna_world\<lparr>path_exists := (\<lambda>path. False)\<rparr>"

definition fresh_process :: process where
  "fresh_process =
     \<lparr>session = \<lparr>messages = None, prompt_input = None\<rparr>, engine_cache = None\<rparr>"

definition greeted_process :: process where
  "greeted_process =
     \<lparr>session = \<lparr>messages = Some [AIMessage greeting], prompt_input = None\<rparr>,
      engine_cache = None\<rparr>"

section \<open>Basic facts about the blocks of the script\<close>

lemma foldl_button_messages:
  "messages (foldl (shortcut_button c) s bs) = messages s"
  by (induction bs arbitrary: s) (simp_all add: shortcut_button_def)

lemma sidebar_messages: "messages (sidebar_navigation c s) = messages s"
  by (simp add: sidebar_navigation_def foldl_button_messages)

lemma foldl_button_idle:
  "\<forall>b \<in> set bs. \<not> c (fst b) \<Longrightarrow> foldl (shortcut_button c) s bs = s"
  by (induction bs arbitrary: s) (simp_all add: shortcut_button_def)

lemma foldl_button_prompt:
  "prompt_input (foldl (shortcut_button c) s bs) = prompt_input s
   \<or> (\<exists>b \<in> set bs. c (fst b))"
proof (induction bs arbitrary: s)
  case Nil
  show ?case by simp
next
  case (Cons b bs)
  show ?case
    using Cons.IH [of "shortcut_button c s b"]
    by (auto simp: shortcut_button_def split: if_splits)
qed

lemma initialize_state_Some: "\<exists>h. messages (initialize_state s) = Some h"
  by (cases "messages s") (simp_all add: initialize_state_def)

lemma initialize_state_prompt: "prompt_input (initialize_state s) = prompt_input s"
  by (cases "messages s") (simp_all add: initialize_state_def)

lemma clicks_messages: "messages (snd (handle_sidebar_clicks s)) = messages s"
  by (simp add: handle_sidebar_clicks_def)

lemma clicks_not_pending: "\<not> truthy (prompt_input (snd (handle_sidebar_clicks s)))"
  by (simp add: handle_sidebar_clicks_def truthy_def)

lemma display_history_no_call: "filter is_service_call (display_history ms) = []"
  by (induction ms rule: display_history.induct) simp_all

lemma main_interface_idle:
  assumes "messages (initialize_state s) = Some h"
    and "\<not> truthy (input_logic (fst (handle_sidebar_clicks (initialize_state s))) (chat_input w))"
  shows "main_interface w retr l s =
    (Finished, snd (handle_sidebar_clicks (initialize_state s)),
     display_history h @ [Chat_input_widget])"
  using assms
  by (auto simp: main_interface_def truthy_def clicks_messages handle_sidebar_clicks_def
      split: prod.splits option.splits)

lemma main_interface_query:
  assumes "messages (initialize_state s) = Some h"
    and "input_logic (fst (handle_sidebar_clicks (initialize_state s))) (chat_input w) = Some q"
    and "q \<noteq> []"
  shows "main_interface w retr l s =
    (case handle_query w retr l (fst (handle_sidebar_clicks (initialize_state s))) q h of
       (out, ms', evs) \<Rightarrow>
         (out, (snd (handle_sidebar_clicks (initialize_state s)))\<lparr>messages := Some ms'\<rparr>,
          display_history h @ [Chat_input_widget] @ evs))"
  using assms
  by (auto simp: main_interface_def handle_sidebar_clicks_def
      split: prod.splits option.splits)

lemma app_main:
  assumes "secrets w ''GOOGLE_API_KEY'' = Some key"
    and "fst (get_engine w (engine_cache p)) = Some (retr, l)"
  shows "app w p =
    (case main_interface w retr l (sidebar_navigation (button w) (session p)) of
       (out, s2, evs) \<Rightarrow>
         \<lparr>outcome = out,
          state = \<lparr>session = s2, engine_cache = snd (get_engine w (engine_cache p))\<rparr>,
          events = [Set_page_config, Theme_markdown, Set_environ ''GOOGLE_API_KEY'' key,
                    Sidebar, Header] @ evs\<rparr>)"
  using assms by (simp add: app_def case_prod_beta Let_def)

lemma app_no_engine:
  assumes "secrets w ''GOOGLE_API_KEY'' = Some key"
    and "fst (get_engine w (engine_cache p)) = None"
  shows "app w p =
         \<lparr>outcome = Stopped,
          state = \<lparr>session = sidebar_navigation (button w) (session p),
                   engine_cache = snd (get_engine w (engine_cache p))\<rparr>,
          events = [Set_page_config, Theme_markdown, Set_environ ''GOOGLE_API_KEY'' key,
                    Sidebar, Header, Error_missing_database, Stop]\<rparr>"
  using assms by (simp add: app_def case_prod_beta Let_def)

lemma app_no_key:
  assumes "secrets w ''GOOGLE_API_KEY'' = None"
  shows "app w p =
         \<lparr>outcome = Stopped, state = p,
          events = [Set_page_config, Theme_markdown, Error_missing_api_key, Stop]\<rparr>"
  using assms by (simp add: app_def)

lemma handle_query_ok:
  assumes "retriever_invoke w retr q = Some docs"
    and "llm_invoke w l (SystemMessage (system_prompt (join ''\<newline>\<newline>'' (map page_content docs)))
           # ms @ [HumanMessage q]) = Some reply"
  shows "handle_query w retr l u q ms =
    (Finished, ms @ [HumanMessage q, AIMessage reply],
     (if \<not> truthy u then [Chat_message User q] else []) @
     [Retriever_invoke retr q,
      Llm_invoke l (SystemMessage (system_prompt (join ''\<newline>\<newline>'' (map page_content docs)))
           # ms @ [HumanMessage q]),
      Response_markdown reply])"
  using assms by (simp add: handle_query_def)

section \<open>The query and response cycle\<close>

text \<open>
  Claim C1. In a render that reaches the chat (the key is configured and the retriever
  exists), started with a history of \<open>N\<close> turns and a non-empty query \<open>q\<close>, if the
  retriever and the generator answer, the render finishes and the history is afterwards
  the old one followed by the user turn \<open>q\<close> and then the assistant turn with the
  generator's reply: \<open>N + 2\<close> turns.
\<close>

theorem query_cycle_appends_two_turns:
  assumes key: "secrets w ''GOOGLE_API_KEY'' = Some key"
    and eng: "fst (get_engine w (engine_cache p)) = Some (retr, l)"
    and hist: "messages (session p) = Some ms"
    and q: "final_query w (session p) = Some q" "q \<noteq> []"
    and docs: "retriever_invoke w retr q = Some docs"
    and reply: "llm_invoke w l
        (SystemMessage (system_prompt (join ''\<newline>\<newline>'' (map page_content docs)))
           # ms @ [HumanMessage q]) = Some reply"
  shows "outcome (app w p) = Finished \<and>
         messages (session (state (app w p))) = Some (ms @ [HumanMessage q, AIMessage reply]) \<and>
         map_option length (messages (session (state (app w p)))) = Some (length ms + 2)"
proof -
  let ?s = "sidebar_navigation (button w) (session p)"
  have h: "messages (initialize_state ?s) = Some ms"
    using hist by (simp add: initialize_state_def sidebar_messages)
  have fq: "input_logic (fst (handle_sidebar_clicks (initialize_state ?s))) (chat_input w) = Some q"
    using q(1) by (simp add: final_query_def)
  show ?thesis
    by (simp add: app_main [OF key eng] main_interface_query [OF h fq q(2)]
        handle_query_ok [OF docs reply])
qed

theorem query_cycle_appends_two_turns_witness:
  "messages (session greeted_process) = Some [AIMessage greeting] \<and>
   final_query typing_world (session greeted_process) = Some ''Karna kaun tha'' \<and>
   outcome (app typing_world greeted_process) = Finished \<and>
   messages (session (state (app typing_world greeted_process))) =
     Some [AIMessage greeting, HumanMessage ''Karna kaun tha'',
           AIMessage ''Karna was a great warrior.'']"
proof -
  have key: "secrets typing_world ''GOOGLE_API_KEY'' = Some ''secret''"
    by (simp add: typing_world_def idle_world_def)
  have eng: "fst (get_engine typing_world (engine_cache greeted_process)) =
      Some (Retriever DB_PATH 4, ChatGoogleGenerativeAI ''gemini-1.5-pro'')"
    by (simp add: get_engine_def get_engine_body_def greeted_process_def typing_world_def
        idle_world_def)
  have hist: "messages (session greeted_process) = Some [AIMessage greeting]"
    by (simp add: greeted_process_def)
  have q: "final_query typing_world (session greeted_process) = Some ''Karna kaun tha''"
    by (simp add: final_query_def input_logic_def handle_sidebar_clicks_def truthy_def
        initialize_state_prompt sidebar_navigation_def shortcuts_def shortcut_button_def
        greeted_process_def typing_world_def idle_world_def)
  have docs: "retriever_invoke typing_world (Retriever DB_PATH 4) ''Karna kaun tha'' =
      Some [Document ''Karna was the son of Surya.'', Document ''Karna gave away his armor.'']"
    by (simp add: typing_world_def idle_world_def)
  have reply: "llm_invoke typing_world (ChatGoogleGenerativeAI ''gemini-1.5-pro'')
      (SystemMessage (system_prompt (join ''\<newline>\<newline>'' (map page_content
          [Document ''Karna was the son of Surya.'', Document ''Karna gave away his armor.''])))
        # [AIMessage greeting] @ [HumanMessage ''Karna kaun tha'']) =
      Some ''Karna was a great warrior.''"
    by (simp add: typing_world_def idle_world_def)
  have "''Karna kaun tha'' \<noteq> []" by simp
  from query_cycle_appends_two_turns [OF key eng hist q this docs reply] hist q
  show ?thesis by simp
qed

section \<open>The two start-up checks\<close>

lemma get_engine_snd:
  "snd (get_engine w c) = Some (fst (get_engine w c))"
  by (cases c) (simp_all add: get_engine_def)

lemma get_engine_cached: "get_engine w (Some r) = (r, Some r)"
  by (simp add: get_engine_def)

lemma app_without_retriever:
  assumes "fst (get_engine w (engine_cache p)) = None"
  shows "outcome (app w p) = Stopped"
    and "messages (session (state (app w p))) = messages (session p)"
    and "filter is_service_call (events (app w p)) = []"
    and "engine_cache (state (app w p)) = engine_cache p
         \<or> engine_cache (state (app w p)) = Some None"
  using assms
  by (cases "secrets w ''GOOGLE_API_KEY''";
      simp add: app_no_key app_no_engine sidebar_messages get_engine_snd)+

lemma run_without_retriever:
  "engine_cache p = Some None \<Longrightarrow>
   messages (session (fst (run ws p))) = messages (session p) \<and>
   filter is_service_call (snd (run ws p)) = [] \<and>
   engine_cache (fst (run ws p)) = Some None"
proof (induction ws arbitrary: p)
  case Nil
  then show ?case by simp
next
  case (Cons w ws)
  have none: "fst (get_engine w (engine_cache p)) = None"
    using Cons.prems by (simp add: get_engine_cached)
  have cache: "engine_cache (state (app w p)) = Some None"
    using app_without_retriever(4) [OF none] Cons.prems by auto
  show ?case
    using Cons.IH [OF cache] app_without_retriever(2,3) [OF none]
    by (simp add: case_prod_beta)
qed

text \<open>
  Claim C2. When the engine lookup of a render returns no retriever (the index directory
  was absent when \<^verbatim>\<open>get_engine\<close> first ran), the render is halted by \<^verbatim>\<open>st.stop()\<close>,
  calls neither the retriever nor the generator, and leaves the history as it was: no
  greeting is added and no user turn is appended. Once the cache holds that answer, the
  same is true of every later render of the process, whatever is clicked or typed.
\<close>

theorem missing_index_halts:
  "(fst (get_engine w (engine_cache p)) = None \<longrightarrow>
      outcome (app w p) = Stopped \<and>
      messages (session (state (app w p))) = messages (session p) \<and>
      filter is_service_call (events (app w p)) = []) \<and>
   (engine_cache p = Some None \<longrightarrow>
      messages (session (fst (run ws p))) = messages (session p) \<and>
      filter is_service_call (snd (run ws p)) = [] \<and>
      engine_cache (fst (run ws p)) = Some None)"
  using app_without_retriever(1,2,3) [of w p] run_without_retriever [of p ws] by blast

theorem missing_index_halts_witness:
  "fst (get_engine no_db_world (engine_cache fresh_process)) = None \<and>
   outcome (app no_db_world fresh_process) = Stopped \<and>
   messages (session (state (app no_db_world fresh_process))) = None \<and>
   filter is_service_call (events (app no_db_world fresh_process)) = [] \<and>
   engine_cache (state (app no_db_world fresh_process)) = Some None \<and>
   messages (session (fst (run [typing_world, arjuna_world]
      (state (app no_db_world fresh_process))))) = None \<and>
   filter is_service_call (snd (run [typing_world, arjuna_world]
      (state (app no_db_world fresh_process)))) = []"
proof -
  have none: "fst (get_engine no_db_world (engine_cache fresh_process)) = None"
    by (simp add: get_engine_def get_engine_body_def fresh_process_def no_db_world_def
        idle_world_def)
  have key: "secrets no_db_world ''GOOGLE_API_KEY'' = Some ''secret''"
    by (simp add: no_db_world_def idle_world_def)
  have cache: "engine_cache (state (app no_db_world fresh_process)) = Some None"
    using none by (simp add: app_no_engine [OF key none] get_engine_snd)
  have m0: "messages (session fresh_process) = None"
    by (simp add: fresh_process_def)
  from missing_index_halts [of no_db_world fresh_process "[]"] none m0
  have one: "outcome (app no_db_world fresh_process) = Stopped \<and>
      messages (session (state (app no_db_world fresh_process))) = None \<and>
      filter is_service_call (events (app no_db_world fresh_process)) = []"
    by simp
  from missing_index_halts [of idle_world "state (app no_db_world fresh_process)"
      "[typing_world, arjuna_world]"] cache one
  have "messages (session (fst (run [typing_world, arjuna_world]
      (state (app no_db_world fresh_process))))) = None \<and>
   filter is_service_call (snd (run [typing_world, arjuna_world]
      (state (app no_db_world fresh_process)))) = []"
    by simp
  with none one cache show ?thesis by simp
qed

text \<open>
  Claim C7. When the secrets store has no \<^verbatim>\<open>GOOGLE_API_KEY\<close>, the render is halted by
  \<^verbatim>\<open>st.stop()\<close> right after the page configuration, the style sheet and the error
  box: the sidebar, the header, the history, the chat input and the query handling are
  not reached, no service is called, and neither the session state nor the engine cache
  changes.
\<close>

theorem missing_api_key_halts:
  assumes "secrets w ''GOOGLE_API_KEY'' = None"
  shows "outcome (app w p) = Stopped \<and> state (app w p) = p \<and>
         events (app w p) = [Set_page_config, Theme_markdown, Error_missing_api_key, Stop] \<and>
         Sidebar \<notin> set (events (app w p)) \<and>
         Header \<notin> set (events (app w p)) \<and>
         Chat_input_widget \<notin> set (events (app w p)) \<and>
         (\<forall>r c. Chat_message r c \<notin> set (events (app w p))) \<and>
         filter is_service_call (events (app w p)) = []"
  by (simp add: app_no_key [OF assms])

theorem missing_api_key_halts_witness:
  "secrets no_key_world ''GOOGLE_API_KEY'' = None \<and>
   app no_key_world fresh_process =
     \<lparr>outcome = Stopped, state = fresh_process,
      events = [Set_page_config, Theme_markdown, Error_missing_api_key, Stop]\<rparr>"
proof -
  have k: "secrets no_key_world ''GOOGLE_API_KEY'' = None"
    by (simp add: no_key_world_def idle_world_def)
  from missing_api_key_halts [OF k, of fresh_process] k show ?thesis
    by (cases "app no_key_world fresh_process") simp
qed

section \<open>The sidebar's shortcuts\<close>

text \<open>
  Claim C8. When the button labelled ``Arjuna (Warrior)'' is the one clicked, the sidebar
  block stores exactly the string ``Describe Arjuna's skills, the Gandiva bow, and his bond
  with Krishna.'' under \<^verbatim>\<open>prompt_input\<close>, and changes nothing else of the session state.
\<close>

theorem arjuna_shortcut_queues_query:
  "sidebar_navigation (\<lambda>label. label = ''Arjuna (Warrior)'') s =
     s\<lparr>prompt_input :=
         Some ''Describe Arjuna's skills, the Gandiva bow, and his bond with Krishna.''\<rparr>"
  by (simp add: sidebar_navigation_def shortcuts_def shortcut_button_def)

section \<open>The session bootstrap and renders without a query\<close>

lemma handle_query_extends:
  "\<exists>extra. fst (snd (handle_query w retr l u q ms)) = ms @ HumanMessage q # extra \<and>
     (extra = [] \<or> (\<exists>c. extra = [AIMessage c]))"
  by (simp add: handle_query_def Let_def split: option.splits)

lemma main_interface_extends:
  assumes "messages (initialize_state s) = Some h"
  shows "\<exists>extra. messages (fst (snd (main_interface w retr l s))) = Some (h @ extra) \<and>
           filter is_system extra = []"
proof (cases "truthy (input_logic (fst (handle_sidebar_clicks (initialize_state s))) (chat_input w))")
  case False
  then show ?thesis
    by (simp add: main_interface_idle [OF assms] clicks_messages assms)
next
  case True
  then obtain q where q: "input_logic (fst (handle_sidebar_clicks (initialize_state s)))
      (chat_input w) = Some q" "q \<noteq> []"
    by (auto simp: truthy_def split: option.splits)
  obtain extra where
    "fst (snd (handle_query w retr l (fst (handle_sidebar_clicks (initialize_state s))) q h)) =
       h @ HumanMessage q # extra" "extra = [] \<or> (\<exists>c. extra = [AIMessage c])"
    using handle_query_extends by blast
  then show ?thesis
    by (auto simp: main_interface_query [OF assms q] case_prod_beta)
qed

lemma app_extends:
  assumes "messages (session p) = Some ms"
  shows "\<exists>extra. messages (session (state (app w p))) = Some (ms @ extra) \<and>
           filter is_system extra = []"
proof (cases "secrets w ''GOOGLE_API_KEY''")
  case None
  then show ?thesis by (simp add: app_no_key assms)
next
  case (Some key)
  show ?thesis
  proof (cases "fst (get_engine w (engine_cache p))")
    case None
    then show ?thesis by (simp add: app_no_engine [OF Some] sidebar_messages assms)
  next
    case (Some e)
    obtain retr l where e: "e = (retr, l)" by (cases e)
    have h: "messages (initialize_state (sidebar_navigation (button w) (session p))) = Some ms"
      using assms by (simp add: initialize_state_def sidebar_messages)
    show ?thesis
      using main_interface_extends [OF h, of w retr l]
      by (simp add: app_main [OF \<open>secrets w ''GOOGLE_API_KEY'' = Some key\<close> Some [unfolded e]]
          case_prod_beta)
  qed
qed

lemma app_idle:
  assumes key: "secrets w ''GOOGLE_API_KEY'' = Some key"
    and eng: "fst (get_engine w (engine_cache p)) = Some (retr, l)"
    and idle: "\<not> truthy (final_query w (session p))"
  shows "messages (session (state (app w p))) = messages (initialize_state (session p))"
    and "filter is_service_call (events (app w p)) = []"
    and "outcome (app w p) = Finished"
proof -
  let ?s = "sidebar_navigation (button w) (session p)"
  obtain h where h: "messages (initialize_state ?s) = Some h"
    using initialize_state_Some by blast
  have i: "\<not> truthy (input_logic (fst (handle_sidebar_clicks (initialize_state ?s))) (chat_input w))"
    using idle by (simp add: final_query_def)
  have same: "messages (initialize_state ?s) = messages (initialize_state (session p))"
    by (simp add: initialize_state_def sidebar_messages split: option.splits)
  show "messages (session (state (app w p))) = messages (initialize_state (session p))"
    using same
    by (simp add: app_main [OF key eng] main_interface_idle [OF h i] clicks_messages)
  show "filter is_service_call (events (app w p)) = []"
    by (simp add: app_main [OF key eng] main_interface_idle [OF h i] display_history_no_call)
  show "outcome (app w p) = Finished"
    by (simp add: app_main [OF key eng] main_interface_idle [OF h i])
qed

lemma app_idle_any:
  assumes idle: "\<not> truthy (final_query w (session p))"
  shows "filter is_service_call (events (app w p)) = []"
    and "messages (session (state (app w p))) = messages (session p) \<or>
         (messages (session p) = None \<and>
          messages (session (state (app w p))) = Some [AIMessage greeting])"
proof -
  have "filter is_service_call (events (app w p)) = [] \<and>
    (messages (session (state (app w p))) = messages (session p) \<or>
         (messages (session p) = None \<and>
          messages (session (state (app w p))) = Some [AIMessage greeting]))"
  proof (cases "secrets w ''GOOGLE_API_KEY''")
    case None
    then show ?thesis by (simp add: app_no_key)
  next
    case (Some key)
    show ?thesis
    proof (cases "fst (get_engine w (engine_cache p))")
      case None
      then show ?thesis by (simp add: app_no_engine [OF Some] sidebar_messages)
    next
      case e: (Some e)
      obtain retr l where "e = (retr, l)" by (cases e)
      with e have eng: "fst (get_engine w (engine_cache p)) = Some (retr, l)" by simp
      show ?thesis
        using app_idle(1,2) [OF Some eng idle]
        by (cases "messages (session p)") (simp_all add: initialize_state_def)
    qed
  qed
  then show "filter is_service_call (events (app w p)) = []"
    and "messages (session (state (app w p))) = messages (session p) \<or>
         (messages (session p) = None \<and>
          messages (session (state (app w p))) = Some [AIMessage greeting])"
    by simp_all
qed

lemma idle_final_query: "\<not> truthy (final_query idle_world \<lparr>messages = m, prompt_input = None\<rparr>)"
  by (simp add: final_query_def input_logic_def handle_sidebar_clicks_def truthy_def
      initialize_state_prompt sidebar_navigation_def shortcuts_def shortcut_button_def
      idle_world_def)

lemma idle_world_key: "secrets idle_world ''GOOGLE_API_KEY'' = Some ''secret''"
  by (simp add: idle_world_def)

lemma idle_world_engine:
  "fst (get_engine idle_world None) =
     Some (Retriever DB_PATH 4, ChatGoogleGenerativeAI ''gemini-1.5-pro'')"
  by (simp add: get_engine_def get_engine_body_def idle_world_def)



text \<open>
  Claim C9 says that every render without an effective query leaves the history
  unchanged. That fails on the first render of a session: nothing is clicked or typed,
  yet the bootstrap block creates the history with the greeting.
\<close>

theorem empty_query_counterexample:
  "\<not> truthy (final_query idle_world (session fresh_process)) \<and>
   messages (session fresh_process) = None \<and>
   messages (session (state (app idle_world fresh_process))) = Some [AIMessage greeting]"
proof -
  have i: "\<not> truthy (final_query idle_world (session fresh_process))"
    by (simp add: fresh_process_def idle_final_query)
  have e: "fst (get_engine idle_world (engine_cache fresh_process)) =
     Some (Retriever DB_PATH 4, ChatGoogleGenerativeAI ''gemini-1.5-pro'')"
    by (simp add: fresh_process_def idle_world_engine)
  show ?thesis
    using i app_idle(1) [OF idle_world_key e i]
    by (simp add: initialize_state_def fresh_process_def)
qed

text \<open>
  Claim C9, amended. In every render in which the effective query is empty or absent,
  neither the retriever nor the generator is called and an existing history is left
  unchanged; when the session has no history yet, it stays absent (the render was halted
  by a start-up check) or becomes the single greeting turn, and nothing else is appended.
\<close>

theorem empty_query_frame:
  assumes "\<not> truthy (final_query w (session p))"
  shows "filter is_service_call (events (app w p)) = [] \<and>
         (\<forall>ms. messages (session p) = Some ms \<longrightarrow>
            messages (session (state (app w p))) = Some ms) \<and>
         (messages (session p) = None \<longrightarrow>
            messages (session (state (app w p))) = None \<or>
            messages (session (state (app w p))) = Some [AIMessage greeting])"
  using app_idle_any [OF assms] by auto

theorem empty_query_frame_witness:
  "\<not> truthy (final_query idle_world (session greeted_process)) \<and>
   filter is_service_call (events (app idle_world greeted_process)) = [] \<and>
   messages (session (state (app idle_world greeted_process))) = Some [AIMessage greeting]"
proof -
  have i: "\<not> truthy (final_query idle_world (session greeted_process))"
    by (simp add: greeted_process_def idle_final_query)
  have m: "messages (session greeted_process) = Some [AIMessage greeting]"
    by (simp add: greeted_process_def)
  from empty_query_frame [OF i] i m show ?thesis by simp
qed

section \<open>Shortcut and typed input in the same render\<close>

lemma handle_query_chat_input:
  "handle_query (w\<lparr>chat_input := t\<rparr>) retr l u q ms = handle_query w retr l u q ms"
  by (simp add: handle_query_def Let_def cong: option.case_cong)

lemma get_engine_chat_input: "get_engine (w\<lparr>chat_input := t\<rparr>) c = get_engine w c"
  by (cases c) (simp_all add: get_engine_def get_engine_body_def)

lemma main_interface_pending:
  "truthy (prompt_input s) \<Longrightarrow>
   main_interface (w\<lparr>chat_input := t\<rparr>) retr l s = main_interface w retr l s"
  by (simp add: main_interface_def handle_sidebar_clicks_def input_logic_def
      handle_query_chat_input initialize_state_prompt Let_def
      cong: option.case_cong if_cong)

lemma final_query_pending:
  "truthy (prompt_input (sidebar_navigation (button w) s)) \<Longrightarrow>
   final_query w s = prompt_input (sidebar_navigation (button w) s)"
  by (simp add: final_query_def handle_sidebar_clicks_def input_logic_def
      initialize_state_prompt)

text \<open>
  Claim C10. When a non-empty shortcut query \<open>q\<close> is pending after the sidebar block,
  \<open>q\<close> is the query the render handles, and the result of the render (outcome, state
  and effects) is the same whatever the chat input returned: the typed text is discarded.
  In a render that reaches the chat the history afterwards is the bootstrapped history
  followed by the user turn \<open>q\<close> and at most the assistant's reply.
\<close>

theorem shortcut_takes_precedence:
  assumes "prompt_input (sidebar_navigation (button w) (session p)) = Some q" and "q \<noteq> []"
  shows "final_query w (session p) = Some q \<and>
         app (w\<lparr>chat_input := typed\<rparr>) p = app w p \<and>
         (\<forall>h key retr l.
            secrets w ''GOOGLE_API_KEY'' = Some key \<and>
            fst (get_engine w (engine_cache p)) = Some (retr, l) \<and>
            messages (initialize_state (session p)) = Some h \<longrightarrow>
            (\<exists>extra. messages (session (state (app w p))) = Some (h @ HumanMessage q # extra) \<and>
               (extra = [] \<or> (\<exists>c. extra = [AIMessage c]))))"
proof -
  let ?s = "sidebar_navigation (button w) (session p)"
  have pend: "truthy (prompt_input ?s)"
    using assms by (simp add: truthy_def)
  have fq: "final_query w (session p) = Some q"
    using final_query_pending [OF pend] assms(1) by simp
  have same: "app (w\<lparr>chat_input := typed\<rparr>) p = app w p"
    using pend
    by (simp add: app_def get_engine_chat_input main_interface_pending case_prod_beta Let_def
        cong: option.case_cong)
  have hist: "\<exists>extra. messages (session (state (app w p))) = Some (h @ HumanMessage q # extra) \<and>
               (extra = [] \<or> (\<exists>c. extra = [AIMessage c]))"
    if key: "secrets w ''GOOGLE_API_KEY'' = Some key"
      and eng: "fst (get_engine w (engine_cache p)) = Some (retr, l)"
      and h: "messages (initialize_state (session p)) = Some h"
    for h key retr l
  proof -
    have h': "messages (initialize_state ?s) = Some h"
      using h by (simp add: initialize_state_def sidebar_messages split: option.splits)
    have iq: "input_logic (fst (handle_sidebar_clicks (initialize_state ?s))) (chat_input w)
        = Some q"
      using fq by (simp add: final_query_def)
    show ?thesis
      using handle_query_extends [of w retr l "fst (handle_sidebar_clicks (initialize_state ?s))" q h]
      by (auto simp: app_main [OF key eng] main_interface_query [OF h' iq assms(2)]
          case_prod_beta)
  qed
  from fq same hist show ?thesis by blast
qed

theorem shortcut_takes_precedence_witness:
  "prompt_input (sidebar_navigation (button arjuna_typing_world) (session greeted_process)) =
     Some ''Describe Arjuna's skills, the Gandiva bow, and his bond with Krishna.'' \<and>
   chat_input arjuna_typing_world = Some ''Karna kaun tha'' \<and>
   final_query arjuna_typing_world (session greeted_process) =
     Some ''Describe Arjuna's skills, the Gandiva bow, and his bond with Krishna.'' \<and>
   app (arjuna_typing_world\<lparr>chat_input := None\<rparr>) greeted_process =
     app arjuna_typing_world greeted_process \<and>
   (\<exists>extra. messages (session (state (app arjuna_typing_world greeted_process))) =
      Some ([AIMessage greeting] @
        HumanMessage ''Describe Arjuna's skills, the Gandiva bow, and his bond with Krishna.''
        # extra))"
proof -
  let ?q = "''Describe Arjuna's skills, the Gandiva bow, and his bond with Krishna.''"
  have b: "button arjuna_typing_world = (\<lambda>label. label = ''Arjuna (Warrior)'')"
    by (simp add: arjuna_typing_world_def arjuna_world_def)
  have pend: "prompt_input (sidebar_navigation (button arjuna_typing_world)
      (session greeted_process)) = Some ?q"
    unfolding b by (simp add: sidebar_navigation_def shortcuts_def shortcut_button_def)
  have ne: "?q \<noteq> []" by simp
  have typed: "chat_input arjuna_typing_world = Some ''Karna kaun tha''"
    by (simp add: arjuna_typing_world_def)
  have key: "secrets arjuna_typing_world ''GOOGLE_API_KEY'' = Some ''secret''"
    by (simp add: arjuna_typing_world_def arjuna_world_def idle_world_def)
  have eng: "fst (get_engine arjuna_typing_world (engine_cache greeted_process)) =
      Some (Retriever DB_PATH 4, ChatGoogleGenerativeAI ''gemini-1.5-pro'')"
    by (simp add: get_engine_def get_engine_body_def greeted_process_def
        arjuna_typing_world_def arjuna_world_def idle_world_def)
  have h: "messages (initialize_state (session greeted_process)) = Some [AIMessage greeting]"
    by (simp add: initialize_state_def greeted_process_def)
  from shortcut_takes_precedence [OF pend ne, of None] key eng h pend typed
  show ?thesis by blast
qed

section \<open>The request sent to the generator\<close>

lemma app_no_system: "no_system (session p) \<Longrightarrow> no_system (session (state (app w p)))"
proof (cases "messages (session p)")
  case None
  assume "no_system (session p)"
  show ?thesis
  proof (cases "secrets w ''GOOGLE_API_KEY''")
    case key: None
    then show ?thesis using None by (simp add: app_no_key no_system_def)
  next
    case key: (Some key)
    show ?thesis
    proof (cases "fst (get_engine w (engine_cache p))")
      case e: None
      then show ?thesis using None
        by (simp add: app_no_engine [OF key] sidebar_messages no_system_def)
    next
      case e: (Some e)
      obtain retr l where "e = (retr, l)" by (cases e)
      with e have eng: "fst (get_engine w (engine_cache p)) = Some (retr, l)" by simp
      have h: "messages (initialize_state (sidebar_navigation (button w) (session p))) =
          Some [AIMessage greeting]"
        using None by (simp add: initialize_state_def sidebar_messages)
      show ?thesis
        using main_interface_extends [OF h, of w retr l]
        by (auto simp: app_main [OF key eng] case_prod_beta no_system_def)
    qed
  qed
next
  case (Some ms)
  assume "no_system (session p)"
  then show ?thesis
    using app_extends [OF Some, of w] Some by (auto simp: no_system_def)
qed

lemma run_no_system: "no_system (session p) \<Longrightarrow> no_system (session (fst (run ws p)))"
proof (induction ws arbitrary: p)
  case Nil
  then show ?case by simp
next
  case (Cons w ws)
  from Cons.IH [OF app_no_system [OF Cons.prems]] show ?case
    by (simp add: case_prod_beta)
qed

lemma initialize_state_no_system:
  assumes "no_system s" and "messages (initialize_state s) = Some h"
  shows "filter is_system h = []"
  using assms by (auto simp: no_system_def initialize_state_def split: option.splits)

lemma typing_world_key: "secrets typing_world ''GOOGLE_API_KEY'' = Some ''secret''"
  by (simp add: typing_world_def idle_world_def)

lemma typing_world_engine:
  "fst (get_engine typing_world None) =
     Some (Retriever DB_PATH 4, ChatGoogleGenerativeAI ''gemini-1.5-pro'')"
  by (simp add: get_engine_def get_engine_body_def typing_world_def idle_world_def)

lemma typing_world_query:
  "final_query typing_world \<lparr>messages = m, prompt_input = None\<rparr> = Some ''Karna kaun tha''"
  by (simp add: final_query_def input_logic_def handle_sidebar_clicks_def truthy_def
      initialize_state_prompt sidebar_navigation_def shortcuts_def shortcut_button_def
      typing_world_def idle_world_def)

lemma typing_world_docs:
  "retriever_invoke typing_world r q =
     Some [Document ''Karna was the son of Surya.'', Document ''Karna gave away his armor.'']"
  by (simp add: typing_world_def idle_world_def)

text \<open>
  Claim C3. In a render that handles a non-empty query \<open>q\<close> and whose retrieval
  returns \<open>docs\<close>, the services are called exactly twice, the retriever and then the
  generator, and the generator receives one system message, built in this render from the
  retrieved context, followed by the whole history, whose last turn is the new user turn
  \<open>q\<close>. The system text is the persona, the context block and the four rules. The
  history stored afterwards is the old one followed by the user turn and at most the
  assistant's reply: the system message is not in it, and a history without system
  messages stays so over any sequence of renders.
\<close>

theorem generator_request_shape:
  assumes key: "secrets w ''GOOGLE_API_KEY'' = Some key"
    and eng: "fst (get_engine w (engine_cache p)) = Some (retr, l)"
    and h: "messages (initialize_state (session p)) = Some h"
    and q: "final_query w (session p) = Some q" "q \<noteq> []"
    and docs: "retriever_invoke w retr q = Some docs"
  shows "filter is_service_call (events (app w p)) =
           [Retriever_invoke retr q,
            Llm_invoke l
              ([SystemMessage (system_prompt (join ''\<newline>\<newline>'' (map page_content docs)))]
               @ h @ [HumanMessage q])] \<and>
         system_prompt context_text =
           ''You are Sanjaya, the wise narrator of the Mahabharata. ''
           @ ''CONTEXT:\<newline>'' @ context_text @ ''\<newline>\<newline>''
           @ ''RULES:''
           @ ''1. LANGUAGE: Match the user's language (English, Hindi, or Hinglish).''
           @ ''2. SCRIPT: If user types in Latin script (e.g. 'Karna kaun tha'), use Latin script (Hinglish). Do NOT use Devanagari unless user does.''
           @ ''3. TONE: Respectful, epic, like a Rishi.''
           @ ''4. CONTENT: Answer strictly based on context.'' \<and>
         (\<exists>extra. messages (session (state (app w p))) = Some (h @ HumanMessage q # extra) \<and>
            (extra = [] \<or> (\<exists>c. extra = [AIMessage c]))) \<and>
         (no_system (session p) \<longrightarrow>
            filter is_system
              ([SystemMessage (system_prompt (join ''\<newline>\<newline>'' (map page_content docs)))]
               @ h @ [HumanMessage q]) =
              [SystemMessage (system_prompt (join ''\<newline>\<newline>'' (map page_content docs)))] \<and>
            no_system (session (fst (run (w # ws) p))))"
proof -
  let ?s = "sidebar_navigation (button w) (session p)"
  let ?u = "fst (handle_sidebar_clicks (initialize_state ?s))"
  have h': "messages (initialize_state ?s) = Some h"
    using h by (simp add: initialize_state_def sidebar_messages split: option.splits)
  have iq: "input_logic ?u (chat_input w) = Some q"
    using q(1) by (simp add: final_query_def)
  have calls: "filter is_service_call (snd (snd (handle_query w retr l ?u q h))) =
      [Retriever_invoke retr q,
       Llm_invoke l
         ([SystemMessage (system_prompt (join ''\<newline>\<newline>'' (map page_content docs)))]
          @ h @ [HumanMessage q])]"
    using docs by (simp add: handle_query_def Let_def split: option.splits)
  have a: "filter is_service_call (events (app w p)) =
           [Retriever_invoke retr q,
            Llm_invoke l
              ([SystemMessage (system_prompt (join ''\<newline>\<newline>'' (map page_content docs)))]
               @ h @ [HumanMessage q])]"
    using calls
    by (simp add: app_main [OF key eng] main_interface_query [OF h' iq q(2)] case_prod_beta
        display_history_no_call)
  have b: "system_prompt context_text =
           ''You are Sanjaya, the wise narrator of the Mahabharata. ''
           @ ''CONTEXT:\<newline>'' @ context_text @ ''\<newline>\<newline>''
           @ ''RULES:''
           @ ''1. LANGUAGE: Match the user's language (English, Hindi, or Hinglish).''
           @ ''2. SCRIPT: If user types in Latin script (e.g. 'Karna kaun tha'), use Latin script (Hinglish). Do NOT use Devanagari unless user does.''
           @ ''3. TONE: Respectful, epic, like a Rishi.''
           @ ''4. CONTENT: Answer strictly based on context.''"
    by (simp add: system_prompt_def)
  have c: "\<exists>extra. messages (session (state (app w p))) = Some (h @ HumanMessage q # extra) \<and>
            (extra = [] \<or> (\<exists>c. extra = [AIMessage c]))"
    using handle_query_extends [of w retr l ?u q h]
    by (auto simp: app_main [OF key eng] main_interface_query [OF h' iq q(2)] case_prod_beta)
  have d: "no_system (session p) \<longrightarrow> no_system (session (fst (run (w # ws) p)))"
    using run_no_system [of p "w # ws"] by blast
  have e: "no_system (session p) \<longrightarrow>
      filter is_system
        ([SystemMessage (system_prompt (join ''\<newline>\<newline>'' (map page_content docs)))]
         @ h @ [HumanMessage q]) =
        [SystemMessage (system_prompt (join ''\<newline>\<newline>'' (map page_content docs)))]"
    using initialize_state_no_system [OF _ h] by simp
  from a b c d e show ?thesis by blast
qed

theorem generator_request_shape_witness:
  "filter is_service_call (events (app typing_world greeted_process)) =
     [Retriever_invoke (Retriever DB_PATH 4) ''Karna kaun tha'',
      Llm_invoke (ChatGoogleGenerativeAI ''gemini-1.5-pro'')
        [SystemMessage
           (system_prompt ''Karna was the son of Surya.\<newline>\<newline>Karna gave away his armor.''),
         AIMessage greeting, HumanMessage ''Karna kaun tha'']] \<and>
   no_system (session greeted_process) \<and>
   no_system (session (fst (run [typing_world, idle_world] greeted_process)))"
proof -
  have eng: "fst (get_engine typing_world (engine_cache greeted_process)) =
     Some (Retriever DB_PATH 4, ChatGoogleGenerativeAI ''gemini-1.5-pro'')"
    by (simp add: greeted_process_def typing_world_engine)
  have h: "messages (initialize_state (session greeted_process)) = Some [AIMessage greeting]"
    by (simp add: initialize_state_def greeted_process_def)
  have q: "final_query typing_world (session greeted_process) = Some ''Karna kaun tha''"
    by (simp add: greeted_process_def typing_world_query)
  have ne: "''Karna kaun tha'' \<noteq> []" by simp
  have ns: "no_system (session greeted_process)"
    by (simp add: no_system_def greeted_process_def)
  from generator_request_shape [OF typing_world_key eng h q ne typing_world_docs,
      where ws = "[idle_world]"] ns
  show ?thesis by simp
qed

section \<open>Retrieval and the context block\<close>

lemma join_spec:
  "join sep xs = concat (map (\<lambda>x. x @ sep) (butlast xs)) @ (if xs = [] then [] else last xs)"
  by (induction sep xs rule: join.induct) simp_all

lemma app_cache:
  "engine_cache (state (app w p)) = engine_cache p \<or>
   engine_cache (state (app w p)) = Some (get_engine_body w)"
proof (cases "secrets w ''GOOGLE_API_KEY''")
  case None
  then show ?thesis by (simp add: app_no_key)
next
  case (Some key)
  have c: "snd (get_engine w (engine_cache p)) = engine_cache p \<or>
      snd (get_engine w (engine_cache p)) = Some (get_engine_body w)"
    by (cases "engine_cache p") (simp_all add: get_engine_def)
  show ?thesis
  proof (cases "fst (get_engine w (engine_cache p))")
    case None
    then show ?thesis using c by (simp add: app_no_engine [OF Some])
  next
    case e: (Some e)
    obtain retr l where "e = (retr, l)" by (cases e)
    with e have eng: "fst (get_engine w (engine_cache p)) = Some (retr, l)" by simp
    show ?thesis using c by (simp add: app_main [OF Some eng] case_prod_beta)
  qed
qed

lemma run_cache:
  "engine_cache p = None \<or> (\<exists>w0. engine_cache p = Some (get_engine_body w0)) \<Longrightarrow>
   engine_cache (fst (run ws p)) = None \<or>
   (\<exists>w0. engine_cache (fst (run ws p)) = Some (get_engine_body w0))"
proof (induction ws arbitrary: p)
  case Nil
  then show ?case by simp
next
  case (Cons w ws)
  have "engine_cache (state (app w p)) = None \<or>
      (\<exists>w0. engine_cache (state (app w p)) = Some (get_engine_body w0))"
    using app_cache [of w p] Cons.prems by auto
  from Cons.IH [OF this] show ?case by (simp add: case_prod_beta)
qed

lemma engine_shape:
  assumes "c = None \<or> (\<exists>w0. c = Some (get_engine_body w0))"
    and "fst (get_engine w c) = Some (retr, l)"
  shows "retr = Retriever DB_PATH 4 \<and> l = ChatGoogleGenerativeAI ''gemini-1.5-pro''"
  using assms
  by (auto simp: get_engine_def get_engine_body_def split: option.splits if_splits)

lemma idle_first:
  "state (app idle_world fresh_process) =
     \<lparr>session = \<lparr>messages = Some [AIMessage greeting], prompt_input = None\<rparr>,
      engine_cache = Some (Some (Retriever DB_PATH 4, ChatGoogleGenerativeAI ''gemini-1.5-pro''))\<rparr>"
  by (simp add: app_def get_engine_def get_engine_body_def main_interface_def
      handle_sidebar_clicks_def truthy_def initialize_state_def sidebar_navigation_def
      shortcuts_def shortcut_button_def idle_world_def fresh_process_def input_logic_def)

text \<open>
  Claim C6. In any render of a process whose engine cache started empty, the retriever
  that handles a query is the one \<^verbatim>\<open>get_engine\<close> built, with \<open>k = 4\<close>; it is the
  first service called, with the query itself; and when it returns \<open>docs\<close> the system
  message sent to the generator is built from the texts of \<open>docs\<close>, all of them and in
  the order returned, joined by two newlines: every text but the last is followed by the
  separator.
\<close>

theorem retrieval_top4_context:
  assumes fresh: "engine_cache p0 = None"
    and key: "secrets w ''GOOGLE_API_KEY'' = Some key"
    and eng: "fst (get_engine w (engine_cache (fst (run ws p0)))) = Some (retr, l)"
    and q: "final_query w (session (fst (run ws p0))) = Some q" "q \<noteq> []"
  shows "retr = Retriever DB_PATH 4 \<and> search_k retr = 4 \<and>
         (\<exists>rest. filter is_service_call (events (app w (fst (run ws p0)))) =
                    Retriever_invoke retr q # rest) \<and>
         (\<forall>docs. retriever_invoke w retr q = Some docs \<longrightarrow>
            (\<exists>history. filter is_service_call (events (app w (fst (run ws p0)))) =
               [Retriever_invoke retr q,
                Llm_invoke l
                  (SystemMessage
                     (system_prompt (join ''\<newline>\<newline>'' (map page_content docs))) # history)])) \<and>
         join ''\<newline>\<newline>'' (map page_content ds) =
           concat (map (\<lambda>x. x @ ''\<newline>\<newline>'') (butlast (map page_content ds))) @
           (if ds = [] then [] else page_content (last ds))"
proof -
  let ?p = "fst (run ws p0)"
  let ?s = "sidebar_navigation (button w) (session ?p)"
  let ?u = "fst (handle_sidebar_clicks (initialize_state ?s))"
  have r: "retr = Retriever DB_PATH 4"
    using engine_shape [OF run_cache [of p0 ws] eng] fresh by simp
  obtain h where h: "messages (initialize_state ?s) = Some h"
    using initialize_state_Some by blast
  have iq: "input_logic ?u (chat_input w) = Some q"
    using q(1) by (simp add: final_query_def)
  have ev: "filter is_service_call (events (app w ?p)) =
      filter is_service_call (snd (snd (handle_query w retr l ?u q h)))"
    by (simp add: app_main [OF key eng] main_interface_query [OF h iq q(2)] case_prod_beta
        display_history_no_call)
  have a: "\<exists>rest. filter is_service_call (events (app w ?p)) = Retriever_invoke retr q # rest"
    unfolding ev by (simp add: handle_query_def Let_def split: option.splits)
  have b: "\<exists>history. filter is_service_call (events (app w ?p)) =
               [Retriever_invoke retr q,
                Llm_invoke l
                  (SystemMessage
                     (system_prompt (join ''\<newline>\<newline>'' (map page_content docs))) # history)]"
    if "retriever_invoke w retr q = Some docs" for docs
    unfolding ev using that by (simp add: handle_query_def Let_def split: option.splits)
  have c: "join ''\<newline>\<newline>'' (map page_content ds) =
           concat (map (\<lambda>x. x @ ''\<newline>\<newline>'') (butlast (map page_content ds))) @
           (if ds = [] then [] else page_content (last ds))"
    by (simp add: join_spec last_map)
  from r a b c show ?thesis by auto
qed

theorem retrieval_top4_context_witness:
  "engine_cache fresh_process = None \<and>
   final_query typing_world (session (fst (run [idle_world] fresh_process))) =
     Some ''Karna kaun tha'' \<and>
   (\<exists>history.
      filter is_service_call (events (app typing_world (fst (run [idle_world] fresh_process)))) =
        [Retriever_invoke (Retriever DB_PATH 4) ''Karna kaun tha'',
         Llm_invoke (ChatGoogleGenerativeAI ''gemini-1.5-pro'')
           (SystemMessage
              (system_prompt ''Karna was the son of Surya.\<newline>\<newline>Karna gave away his armor.'')
            # history)])"
proof -
  have fresh: "engine_cache fresh_process = None"
    by (simp add: fresh_process_def)
  have p: "fst (run [idle_world] fresh_process) =
     \<lparr>session = \<lparr>messages = Some [AIMessage greeting], prompt_input = None\<rparr>,
      engine_cache = Some (Some (Retriever DB_PATH 4, ChatGoogleGenerativeAI ''gemini-1.5-pro''))\<rparr>"
    by (simp add: idle_first)
  have eng: "fst (get_engine typing_world (engine_cache (fst (run [idle_world] fresh_process)))) =
     Some (Retriever DB_PATH 4, ChatGoogleGenerativeAI ''gemini-1.5-pro'')"
    unfolding p by (simp add: get_engine_cached)
  have q: "final_query typing_world (session (fst (run [idle_world] fresh_process))) =
      Some ''Karna kaun tha''"
    unfolding p by (simp add: typing_world_query)
  have ne: "''Karna kaun tha'' \<noteq> []" by simp
  from retrieval_top4_context [OF fresh typing_world_key eng q ne] typing_world_docs fresh q
  show ?thesis by simp
qed

section \<open>Consumption of shortcut queries\<close>

lemma display_history_no_retrieval: "filter is_retrieval (display_history ms) = []"
  by (induction ms rule: display_history.induct) simp_all

lemma handle_query_one_retrieval:
  "length (filter is_retrieval (snd (snd (handle_query w retr l u q ms)))) = 1"
  by (simp add: handle_query_def Let_def split: option.splits)

lemma sidebar_pending:
  assumes "truthy (prompt_input (sidebar_navigation (button w) s))"
  shows "truthy (prompt_input s) \<or> shortcut_activated w"
  using assms foldl_button_prompt [of "button w" s shortcuts]
  by (auto simp: sidebar_navigation_def shortcut_activated_def list_ex_iff)

lemma sidebar_idle:
  "\<not> shortcut_activated w \<Longrightarrow> sidebar_navigation (button w) s = s"
  by (simp add: sidebar_navigation_def shortcut_activated_def list_ex_iff foldl_button_idle)

lemma truthy_final_query:
  "truthy (final_query w s) \<longleftrightarrow>
   truthy (prompt_input (sidebar_navigation (button w) s)) \<or> truthy (chat_input w)"
  by (simp add: final_query_def input_logic_def handle_sidebar_clicks_def
      initialize_state_prompt truthy_def)

lemma app_consumes:
  assumes key: "secrets w ''GOOGLE_API_KEY'' = Some key"
    and eng: "fst (get_engine w (engine_cache p)) = Some (retr, l)"
  shows "\<not> truthy (prompt_input (session (state (app w p))))"
    and "truthy (prompt_input (sidebar_navigation (button w) (session p))) \<Longrightarrow>
         prompt_input (session (state (app w p))) = None"
    and "length (filter is_retrieval (events (app w p))) =
         (if truthy (final_query w (session p)) then 1 else 0)"
proof -
  let ?s = "sidebar_navigation (button w) (session p)"
  let ?c = "handle_sidebar_clicks (initialize_state ?s)"
  obtain h where h: "messages (initialize_state ?s) = Some h"
    using initialize_state_Some by blast
  have main: "prompt_input (fst (snd (main_interface w retr l ?s))) = prompt_input (snd ?c) \<and>
      length (filter is_retrieval (snd (snd (main_interface w retr l ?s)))) =
        (if truthy (final_query w (session p)) then 1 else 0)"
  proof (cases "truthy (final_query w (session p))")
    case False
    then have "\<not> truthy (input_logic (fst ?c) (chat_input w))"
      by (simp add: final_query_def)
    from main_interface_idle [OF h this] False show ?thesis
      by (simp add: display_history_no_retrieval)
  next
    case True
    then obtain q where q: "input_logic (fst ?c) (chat_input w) = Some q" "q \<noteq> []"
      by (auto simp: final_query_def truthy_def split: option.splits)
    from main_interface_query [OF h q] True handle_query_one_retrieval [of w retr l "fst ?c" q h]
    show ?thesis
      by (simp add: case_prod_beta display_history_no_retrieval)
  qed
  have st: "prompt_input (session (state (app w p))) = prompt_input (snd ?c)"
    using main by (simp add: app_main [OF key eng] case_prod_beta)
  show "\<not> truthy (prompt_input (session (state (app w p))))"
    unfolding st by (rule clicks_not_pending)
  show "prompt_input (session (state (app w p))) = None"
    if "truthy (prompt_input ?s)"
    unfolding st using that by (simp add: handle_sidebar_clicks_def initialize_state_prompt)
  show "length (filter is_retrieval (events (app w p))) =
         (if truthy (final_query w (session p)) then 1 else 0)"
    using main by (simp add: app_main [OF key eng] case_prod_beta)
qed

lemma app_account:
  "length (filter is_retrieval (events (app w p))) +
     (if truthy (prompt_input (session (state (app w p)))) then 1 else 0)
   \<le> (if truthy (prompt_input (session p)) then 1 else 0) +
     (if shortcut_activated w \<or> truthy (chat_input w) then 1 else 0)"
proof (cases "secrets w ''GOOGLE_API_KEY''")
  case None
  then show ?thesis by (simp add: app_no_key)
next
  case (Some key)
  show ?thesis
  proof (cases "fst (get_engine w (engine_cache p))")
    case None
    then show ?thesis
      using sidebar_pending [of w "session p"]
      by (auto simp: app_no_engine [OF Some])
  next
    case e: (Some e)
    obtain retr l where "e = (retr, l)" by (cases e)
    with e have eng: "fst (get_engine w (engine_cache p)) = Some (retr, l)" by simp
    show ?thesis
      using app_consumes(1,3) [OF Some eng] sidebar_pending [of w "session p"]
      by (auto simp: truthy_final_query)
  qed
qed

lemma run_account:
  "length (filter is_retrieval (snd (run ws p))) +
     (if truthy (prompt_input (session (fst (run ws p)))) then 1 else 0)
   \<le> (if truthy (prompt_input (session p)) then 1 else 0) +
     length (filter (\<lambda>w. shortcut_activated w \<or> truthy (chat_input w)) ws)"
proof (induction ws arbitrary: p)
  case Nil
  show ?case by simp
next
  case (Cons w ws)
  let ?P = "\<lambda>w. shortcut_activated w \<or> truthy (chat_input w)"
  have evs: "length (filter is_retrieval (snd (run (w # ws) p))) =
      length (filter is_retrieval (events (app w p))) +
      length (filter is_retrieval (snd (run ws (state (app w p)))))"
    by (simp add: case_prod_beta)
  have st: "fst (run (w # ws) p) = fst (run ws (state (app w p)))"
    by (simp add: case_prod_beta)
  have cnt: "length (filter ?P (w # ws)) = (if ?P w then 1 else 0) + length (filter ?P ws)"
    by simp
  show ?case
    unfolding evs st cnt
    using Cons.IH [of "state (app w p)"] app_account [of w p] by linarith
qed

lemma arjuna_world_pending:
  "prompt_input (sidebar_navigation (button arjuna_world) s) =
     Some ''Describe Arjuna's skills, the Gandiva bow, and his bond with Krishna.''"
  by (simp add: arjuna_world_def sidebar_navigation_def shortcuts_def shortcut_button_def)

lemma idle_world_not_activated: "\<not> shortcut_activated idle_world"
  by (simp add: shortcut_activated_def shortcuts_def idle_world_def)

lemma arjuna_world_activated: "shortcut_activated arjuna_world"
  by (simp add: shortcut_activated_def shortcuts_def arjuna_world_def)

text \<open>
  Claim C4 says that every shortcut activation is read as the pending query and deleted
  from the session state in the next render. That fails when the index is missing: the
  sidebar block (lines 159 to 197) stores the query, \<^verbatim>\<open>st.stop()\<close> at line 211 halts
  the render before lines 221 to 223, and the query is still in the session state
  afterwards, also after further renders.
\<close>

theorem shortcut_not_consumed_counterexample:
  "shortcut_activated arjuna_no_db_world \<and>
   outcome (app arjuna_no_db_world fresh_process) = Stopped \<and>
   prompt_input (session (state (app arjuna_no_db_world fresh_process))) =
     Some ''Describe Arjuna's skills, the Gandiva bow, and his bond with Krishna.'' \<and>
   prompt_input (session (fst (run [idle_world, idle_world]
       (state (app arjuna_no_db_world fresh_process))))) =
     Some ''Describe Arjuna's skills, the Gandiva bow, and his bond with Krishna.''"
proof -
  let ?q = "''Describe Arjuna's skills, the Gandiva bow, and his bond with Krishna.''"
  let ?p1 = "state (app arjuna_no_db_world fresh_process)"
  have act: "shortcut_activated arjuna_no_db_world"
    by (simp add: shortcut_activated_def shortcuts_def arjuna_no_db_world_def arjuna_world_def)
  have key: "secrets arjuna_no_db_world ''GOOGLE_API_KEY'' = Some ''secret''"
    by (simp add: arjuna_no_db_world_def arjuna_world_def idle_world_def)
  have none: "fst (get_engine arjuna_no_db_world (engine_cache fresh_process)) = None"
    by (simp add: get_engine_def get_engine_body_def fresh_process_def
        arjuna_no_db_world_def arjuna_world_def idle_world_def)
  have side: "sidebar_navigation (button arjuna_no_db_world) (session fresh_process) =
      \<lparr>messages = None, prompt_input = Some ?q\<rparr>"
    by (simp add: arjuna_no_db_world_def arjuna_world_def sidebar_navigation_def shortcuts_def
        shortcut_button_def fresh_process_def)
  have p1: "?p1 = \<lparr>session = \<lparr>messages = None, prompt_input = Some ?q\<rparr>,
      engine_cache = Some None\<rparr>"
    using none by (simp add: app_no_engine [OF key none] side get_engine_snd)
  have out: "outcome (app arjuna_no_db_world fresh_process) = Stopped"
    by (simp add: app_no_engine [OF key none])
  have idle_step: "state (app idle_world \<lparr>session = \<lparr>messages = None, prompt_input = Some ?q\<rparr>,
      engine_cache = Some None\<rparr>) =
      \<lparr>session = \<lparr>messages = None, prompt_input = Some ?q\<rparr>, engine_cache = Some None\<rparr>"
    by (simp add: app_no_engine [OF idle_world_key] get_engine_cached
        sidebar_idle [OF idle_world_not_activated])
  have later: "fst (run [idle_world, idle_world] ?p1) =
      \<lparr>session = \<lparr>messages = None, prompt_input = Some ?q\<rparr>, engine_cache = Some None\<rparr>"
    unfolding p1 by (simp add: idle_step)
  from act out show ?thesis
    unfolding later unfolding p1 by simp
qed

text \<open>
  Claim C4, amended. Every queued shortcut query is handled at most once. In a render
  that reaches the chat (the key is configured and the retriever exists) with a non-empty
  shortcut query \<open>q\<close> pending after the sidebar block, \<open>q\<close> is the query handled, it
  is retrieved for once in that render, and \<^verbatim>\<open>prompt_input\<close> is absent from the
  session state afterwards, whether the handling finishes or raises; so a following
  render in which no button is clicked handles only what is typed. In a render that the
  missing index halts, the pending query is not read: it stays in the session state and
  nothing is retrieved. Over any sequence of renders, the number of queries handled is at
  most the number of renders with a click or a typed input, plus one if a query was
  pending at the start: no activation is handled twice.
\<close>

theorem shortcut_consumed_once:
  "(\<forall>key retr l q.
      secrets w ''GOOGLE_API_KEY'' = Some key \<and>
      fst (get_engine w (engine_cache p)) = Some (retr, l) \<and>
      prompt_input (sidebar_navigation (button w) (session p)) = Some q \<and> q \<noteq> [] \<longrightarrow>
        final_query w (session p) = Some q \<and>
        prompt_input (session (state (app w p))) = None \<and>
        length (filter is_retrieval (events (app w p))) = 1 \<and>
        (\<forall>w'. \<not> shortcut_activated w' \<longrightarrow>
           final_query w' (session (state (app w p))) = chat_input w')) \<and>
   (\<forall>key.
      secrets w ''GOOGLE_API_KEY'' = Some key \<and>
      fst (get_engine w (engine_cache p)) = None \<longrightarrow>
        outcome (app w p) = Stopped \<and>
        prompt_input (session (state (app w p))) =
          prompt_input (sidebar_navigation (button w) (session p)) \<and>
        filter is_retrieval (events (app w p)) = []) \<and>
   length (filter is_retrieval (snd (run ws p)))
     \<le> (if truthy (prompt_input (session p)) then 1 else 0) +
       length (filter (\<lambda>w. shortcut_activated w \<or> truthy (chat_input w)) ws)"
proof -
  have one: "final_query w (session p) = Some q \<and>
        prompt_input (session (state (app w p))) = None \<and>
        length (filter is_retrieval (events (app w p))) = 1 \<and>
        (\<forall>w'. \<not> shortcut_activated w' \<longrightarrow>
           final_query w' (session (state (app w p))) = chat_input w')"
    if key: "secrets w ''GOOGLE_API_KEY'' = Some key"
      and eng: "fst (get_engine w (engine_cache p)) = Some (retr, l)"
      and pend: "prompt_input (sidebar_navigation (button w) (session p)) = Some q"
      and ne: "q \<noteq> []"
    for key retr l q
  proof -
    have t: "truthy (prompt_input (sidebar_navigation (button w) (session p)))"
      using pend ne by (simp add: truthy_def)
    have fq: "final_query w (session p) = Some q"
      using t pend
      by (simp add: final_query_def handle_sidebar_clicks_def input_logic_def
          initialize_state_prompt)
    have gone: "prompt_input (session (state (app w p))) = None"
      using app_consumes(2) [OF key eng t] .
    have once: "length (filter is_retrieval (events (app w p))) = 1"
      using app_consumes(3) [OF key eng] t by (simp add: truthy_final_query)
    have later: "final_query w' (session (state (app w p))) = chat_input w'"
      if "\<not> shortcut_activated w'" for w'
      using gone
      by (simp add: final_query_def sidebar_idle [OF that] handle_sidebar_clicks_def
          input_logic_def initialize_state_prompt truthy_def)
    from fq gone once later show ?thesis by blast
  qed
  have halted: "outcome (app w p) = Stopped \<and>
        prompt_input (session (state (app w p))) =
          prompt_input (sidebar_navigation (button w) (session p)) \<and>
        filter is_retrieval (events (app w p)) = []"
    if key: "secrets w ''GOOGLE_API_KEY'' = Some key"
      and none: "fst (get_engine w (engine_cache p)) = None"
    for key
    by (simp add: app_no_engine [OF key none])
  have acc: "length (filter is_retrieval (snd (run ws p)))
     \<le> (if truthy (prompt_input (session p)) then 1 else 0) +
       length (filter (\<lambda>w. shortcut_activated w \<or> truthy (chat_input w)) ws)"
    using run_account [of ws p] by (simp split: if_splits)
  from one halted acc show ?thesis by blast
qed

theorem shortcut_consumed_once_witness:
  "final_query arjuna_world (session greeted_process) =
     Some ''Describe Arjuna's skills, the Gandiva bow, and his bond with Krishna.'' \<and>
   prompt_input (session (state (app arjuna_world greeted_process))) = None \<and>
   length (filter is_retrieval (events (app arjuna_world greeted_process))) = 1 \<and>
   final_query idle_world (session (state (app arjuna_world greeted_process))) = None \<and>
   length (filter is_retrieval
     (snd (run [arjuna_world, idle_world, idle_world] greeted_process))) \<le> 1 \<and>
   fst (get_engine arjuna_no_db_world (engine_cache greeted_process)) = None \<and>
   outcome (app arjuna_no_db_world greeted_process) = Stopped \<and>
   prompt_input (session (state (app arjuna_no_db_world greeted_process))) =
     Some ''Describe Arjuna's skills, the Gandiva bow, and his bond with Krishna.'' \<and>
   filter is_retrieval (events (app arjuna_no_db_world greeted_process)) = []"
proof -
  let ?q = "''Describe Arjuna's skills, the Gandiva bow, and his bond with Krishna.''"
  have key: "secrets arjuna_world ''GOOGLE_API_KEY'' = Some ''secret''"
    by (simp add: arjuna_world_def idle_world_def)
  have eng: "fst (get_engine arjuna_world (engine_cache greeted_process)) =
      Some (Retriever DB_PATH 4, ChatGoogleGenerativeAI ''gemini-1.5-pro'')"
    by (simp add: get_engine_def get_engine_body_def greeted_process_def arjuna_world_def
        idle_world_def)
  have ne: "?q \<noteq> []" by simp
  have idle: "chat_input idle_world = None" "\<not> truthy (chat_input idle_world)"
    by (simp_all add: idle_world_def truthy_def)
  have arj: "\<not> truthy (chat_input arjuna_world)"
    by (simp add: arjuna_world_def idle_world_def truthy_def)
  have start: "\<not> truthy (prompt_input (session greeted_process))"
    by (simp add: greeted_process_def truthy_def)
  note inst = shortcut_consumed_once [of arjuna_world greeted_process
      "[arjuna_world, idle_world, idle_world]"]
  have rhs: "(if truthy (prompt_input (session greeted_process)) then 1 else 0) +
      length (filter (\<lambda>w. shortcut_activated w \<or> truthy (chat_input w))
        [arjuna_world, idle_world, idle_world]) = 1"
    using idle_world_not_activated arjuna_world_activated idle(2) start by simp
  have acc: "length (filter is_retrieval
     (snd (run [arjuna_world, idle_world, idle_world] greeted_process))) \<le> 1"
    using inst [THEN conjunct2, THEN conjunct2] unfolding rhs .
  have one: "final_query arjuna_world (session greeted_process) = Some ?q \<and>
      prompt_input (session (state (app arjuna_world greeted_process))) = None \<and>
      length (filter is_retrieval (events (app arjuna_world greeted_process))) = 1 \<and>
      (\<forall>w'. \<not> shortcut_activated w' \<longrightarrow>
         final_query w' (session (state (app arjuna_world greeted_process))) = chat_input w')"
    using inst [THEN conjunct1] key eng arjuna_world_pending [of "session greeted_process"] ne
    by blast
  then have next_render:
    "final_query idle_world (session (state (app arjuna_world greeted_process))) = None"
    using idle_world_not_activated idle(1) by simp
  have key': "secrets arjuna_no_db_world ''GOOGLE_API_KEY'' = Some ''secret''"
    by (simp add: arjuna_no_db_world_def arjuna_world_def idle_world_def)
  have none: "fst (get_engine arjuna_no_db_world (engine_cache greeted_process)) = None"
    by (simp add: get_engine_def get_engine_body_def greeted_process_def
        arjuna_no_db_world_def arjuna_world_def idle_world_def)
  have side: "prompt_input (sidebar_navigation (button arjuna_no_db_world)
      (session greeted_process)) = Some ?q"
    by (simp add: arjuna_no_db_world_def arjuna_world_def sidebar_navigation_def shortcuts_def
        shortcut_button_def)
  have halted: "outcome (app arjuna_no_db_world greeted_process) = Stopped \<and>
      prompt_input (session (state (app arjuna_no_db_world greeted_process))) = Some ?q \<and>
      filter is_retrieval (events (app arjuna_no_db_world greeted_process)) = []"
    using shortcut_consumed_once [of arjuna_no_db_world greeted_process "[]",
        THEN conjunct2, THEN conjunct1] key' none side
    by simp
  from one next_render acc none halted show ?thesis by blast
qed

end
